theory Spec2Isabelle
  imports Complex_Main
begin

section \<open>Numbers\<close>

text \<open>
  The engine computes on JavaScript numbers. A number is modelled as a real, or one of the
  three special values the code tests for with \<^verbatim>\<open>Number.isFinite\<close>. Arithmetic on
  finite values is exact: rounding, overflow to an infinity, underflow and the sign of
  zero are not part of the model. Division by zero gives the special values, as in
  JavaScript, and never HOL's \<open>x / 0 = 0\<close>. The associativity of sums, which
  rounding breaks, is not used to settle anything below.
\<close>

datatype number = Fin real | PInf | NInf | NaN

text \<open>The operator \<^verbatim>\<open>+\<close>.\<close>

fun js_add :: "number \<Rightarrow> number \<Rightarrow> number" where
  "js_add NaN _ = NaN"
| "js_add _ NaN = NaN"
| "js_add PInf NInf = NaN"
| "js_add NInf PInf = NaN"
| "js_add PInf _ = PInf"
| "js_add _ PInf = PInf"
| "js_add NInf _ = NInf"
| "js_add _ NInf = NInf"
| "js_add (Fin a) (Fin b) = Fin (a + b)"

text \<open>The operator \<^verbatim>\<open>/\<close>. A zero divisor counts as positive zero.\<close>

fun js_div :: "number \<Rightarrow> number \<Rightarrow> number" where
  "js_div NaN _ = NaN"
| "js_div _ NaN = NaN"
| "js_div (Fin a) (Fin b) =
     (if b = 0 then (if a = 0 then NaN else if 0 < a then PInf else NInf)
      else Fin (a / b))"
| "js_div (Fin a) PInf = Fin 0"
| "js_div (Fin a) NInf = Fin 0"
| "js_div PInf (Fin b) = (if 0 \<le> b then PInf else NInf)"
| "js_div NInf (Fin b) = (if 0 \<le> b then NInf else PInf)"
| "js_div PInf PInf = NaN"
| "js_div PInf NInf = NaN"
| "js_div NInf PInf = NaN"
| "js_div NInf NInf = NaN"

text \<open>The operator \<^verbatim>\<open><=\<close>: false as soon as one side is NaN.\<close>

fun js_le :: "number \<Rightarrow> number \<Rightarrow> bool" where
  "js_le NaN _ = False"
| "js_le _ NaN = False"
| "js_le NInf _ = True"
| "js_le _ PInf = True"
| "js_le (Fin a) (Fin b) = (a \<le> b)"
| "js_le (Fin a) NInf = False"
| "js_le PInf (Fin b) = False"
| "js_le PInf NInf = False"

text \<open>\<^verbatim>\<open>Math.min\<close> and \<^verbatim>\<open>Math.max\<close> of two arguments: NaN if either is NaN.\<close>

definition Math_min :: "number \<Rightarrow> number \<Rightarrow> number" where
  "Math_min a b = (if a = NaN \<or> b = NaN then NaN else if js_le a b then a else b)"

definition Math_max :: "number \<Rightarrow> number \<Rightarrow> number" where
  "Math_max a b = (if a = NaN \<or> b = NaN then NaN else if js_le a b then b else a)"

text \<open>\<^verbatim>\<open>Number.isFinite\<close>.\<close>

fun Number_isFinite :: "number \<Rightarrow> bool" where
  "Number_isFinite (Fin a) = True"
| "Number_isFinite PInf = False"
| "Number_isFinite NInf = False"
| "Number_isFinite NaN = False"

section \<open>Template strings\<close>

text \<open>
  The descriptor and the origin are template literals with numbers in them. How a number
  is printed is the runtime's business, so a template value keeps its numbers as numbers:
  \<^verbatim>\<open>`${a}px`\<close> is \<open>[Num a, Str ''px'']\<close>.
\<close>

datatype part = Str string | Num number

type_synonym template = "part list"

section \<open>core/utils.ts and renderer/transform-calculator.ts\<close>

definition clamp :: "number \<Rightarrow> number \<Rightarrow> number \<Rightarrow> number" where
  "clamp val mn mx = Math_max mn (Math_min val mx)"

text \<open>
  \<^verbatim>\<open>calculateScale\<close> returns the pair \<^verbatim>\<open>[oldScale, newScale]\<close>; the divisor of the delta
  is \<^verbatim>\<open>scaleSensitivity / scale\<close>.
\<close>

definition calculateScale ::
  "number \<Rightarrow> number \<Rightarrow> number \<Rightarrow> number \<Rightarrow> number \<Rightarrow> number \<times> number" where
  "calculateScale scl deltaScale mn mx sens =
     (let oldScale = scl;
          newScale = js_add scl (js_div deltaScale (js_div sens scl));
          newScale = clamp newScale mn mx
      in (oldScale, newScale))"

definition getMatrixTransform :: "number \<Rightarrow> number \<Rightarrow> number \<Rightarrow> template" where
  "getMatrixTransform scl tx ty =
     [Str ''matrix('', Num scl, Str '', 0, 0, '', Num scl, Str '', '', Num tx,
      Str '', '', Num ty, Str '')'']"

definition isValidTransformation :: "number \<Rightarrow> number \<Rightarrow> number \<Rightarrow> bool" where
  "isValidTransformation scl tx ty =
     (Number_isFinite scl \<and> Number_isFinite tx \<and> Number_isFinite ty)"

section \<open>renderer/renderer.ts\<close>

record ITransformation =
  originX :: number
  originY :: number
  translateX :: number
  translateY :: number
  scale :: number

text \<open>
  \<^verbatim>\<open>scaleSensitivity\<close> is an optional property: \<open>None\<close> when the object has none. A
  property that is there and holds \<^verbatim>\<open>undefined\<close> is only ever read as the divisor of
  zoom, where it is NaN: it is \<open>Some NaN\<close> here.
\<close>

record IRendererConfig =
  minScale :: number
  maxScale :: number
  scaleSensitivity :: "number option"

record Renderer =
  state :: ITransformation
  config :: IRendererConfig
  isActiveFlag :: bool

text \<open>
  The two style properties of the element that the renderer writes, and the world an
  operation runs in: the renderer, the element it is given, and the lines written with
  \<^verbatim>\<open>console.warn\<close>. The parameter objects of the operations are modelled without their
  \<^verbatim>\<open>element\<close> property: the element is the one of the world. Their other properties keep
  their names, prefixed by the operation, since a record field is a global name.
\<close>

record style =
  transformOrigin :: template
  transform :: template

record world =
  renderer :: Renderer
  element :: style
  console :: "string list"

record IZoomParams =
  zoom_x :: number
  zoom_y :: number
  zoom_deltaScale :: number

record IPanByParams =
  panBy_originX :: number
  panBy_originY :: number

record IPanToParams =
  panTo_originX :: number
  panTo_originY :: number
  panTo_scale :: "number option"

definition getInitialState :: ITransformation where
  "getInitialState =
     \<lparr>originX = Fin 0, originY = Fin 0, translateX = Fin 0, translateY = Fin 0,
      scale = Fin 1\<rparr>"

text \<open>
  The constructor: \<^verbatim>\<open>{ scaleSensitivity: 10, ...config }\<close> keeps the sensitivity of the
  argument when it has one.
\<close>

definition new_Renderer :: "IRendererConfig \<Rightarrow> Renderer" where
  "new_Renderer cfg =
     \<lparr>state = getInitialState,
      config = cfg\<lparr>scaleSensitivity :=
        Some (case scaleSensitivity cfg of None \<Rightarrow> Fin 10 | Some s \<Rightarrow> s)\<rparr>,
      isActiveFlag = True\<rparr>"

text \<open>Writing one field of the state of the renderer of a world.\<close>

definition set_state :: "ITransformation \<Rightarrow> world \<Rightarrow> world" where
  "set_state st w = w\<lparr>renderer := (renderer w)\<lparr>state := st\<rparr>\<rparr>"

definition the_state :: "world \<Rightarrow> ITransformation" where
  "the_state w = state (renderer w)"

definition the_config :: "world \<Rightarrow> IRendererConfig" where
  "the_config w = config (renderer w)"

definition applyTransform :: "world \<Rightarrow> world" where
  "applyTransform w =
     (if \<not> isValidTransformation (scale (the_state w)) (translateX (the_state w))
            (translateY (the_state w))
      then w\<lparr>console := console w @ [''[Renderer] Invalid transformation values'']\<rparr>
      else w\<lparr>element :=
        \<lparr>transformOrigin =
           [Num (originX (the_state w)), Str ''px '', Num (originY (the_state w)),
            Str ''px''],
         transform =
           getMatrixTransform (scale (the_state w)) (translateX (the_state w))
             (translateY (the_state w))\<rparr>\<rparr>)"

text \<open>
  \<^verbatim>\<open>this.config.scaleSensitivity!\<close>: a property that is missing reads as
  \<^verbatim>\<open>undefined\<close>, which the division turns into NaN.
\<close>

definition sensitivity :: "IRendererConfig \<Rightarrow> number" where
  "sensitivity cfg = (case scaleSensitivity cfg of None \<Rightarrow> NaN | Some s \<Rightarrow> s)"

definition zoom :: "IZoomParams \<Rightarrow> world \<Rightarrow> world" where
  "zoom params w =
     (if \<not> isActiveFlag (renderer w) then w
      else
        let deltaScale = zoom_deltaScale params;
            newScale = js_add (scale (the_state w))
                         (js_div deltaScale (sensitivity (the_config w)))
        in applyTransform
             (set_state ((the_state w)\<lparr>scale :=
                Math_max (minScale (the_config w))
                  (Math_min (maxScale (the_config w)) newScale)\<rparr>) w))"

definition panBy :: "IPanByParams \<Rightarrow> world \<Rightarrow> world" where
  "panBy params w =
     (if \<not> isActiveFlag (renderer w) then w
      else
        let w1 = set_state ((the_state w)\<lparr>translateX :=
                   js_add (translateX (the_state w)) (panBy_originX params)\<rparr>) w;
            w2 = set_state ((the_state w1)\<lparr>translateY :=
                   js_add (translateY (the_state w1)) (panBy_originY params)\<rparr>) w1
        in applyTransform w2)"

definition panTo :: "IPanToParams \<Rightarrow> world \<Rightarrow> world" where
  "panTo params w =
     (if \<not> isActiveFlag (renderer w) then w
      else
        let w1 = (case panTo_scale params of
                    None \<Rightarrow> w
                  | Some s \<Rightarrow>
                      set_state ((the_state w)\<lparr>scale :=
                        Math_max (minScale (the_config w))
                          (Math_min (maxScale (the_config w)) s)\<rparr>) w);
            w2 = set_state ((the_state w1)\<lparr>translateX := panTo_originX params\<rparr>) w1;
            w3 = set_state ((the_state w2)\<lparr>translateY := panTo_originY params\<rparr>) w2
        in applyTransform w3)"

definition reset :: "world \<Rightarrow> world" where
  "reset w =
     (if \<not> isActiveFlag (renderer w) then w else set_state getInitialState w)"

definition getState :: "world \<Rightarrow> ITransformation" where
  "getState w = the_state w"

definition isActive :: "world \<Rightarrow> bool" where
  "isActive w = isActiveFlag (renderer w)"

definition destroy :: "world \<Rightarrow> world" where
  "destroy w = w\<lparr>renderer := (renderer w)\<lparr>isActiveFlag := False\<rparr>\<rparr>"

section \<open>Sequences of calls\<close>

text \<open>A call of one of the four mutating operations, and its effect on the world.\<close>

datatype operation =
  Zoom IZoomParams | PanBy IPanByParams | PanTo IPanToParams | Reset

fun perform :: "operation \<Rightarrow> world \<Rightarrow> world" where
  "perform (Zoom p) w = zoom p w"
| "perform (PanBy p) w = panBy p w"
| "perform (PanTo p) w = panTo p w"
| "perform Reset w = reset w"

text \<open>
  The world right after \<^verbatim>\<open>new Renderer(cfg)\<close>, with the element \<open>el\<close> and nothing
  written to the console yet.
\<close>

definition initial_world :: "IRendererConfig \<Rightarrow> style \<Rightarrow> world" where
  "initial_world cfg el = \<lparr>renderer = new_Renderer cfg, element = el, console = []\<rparr>"

text \<open>The renderer of the unit tests, and an element whose style is still empty.\<close>

definition test_config :: IRendererConfig where
  "test_config =
     \<lparr>minScale = Fin (1 / 10), maxScale = Fin 10, scaleSensitivity = Some (Fin 10)\<rparr>"

definition empty_style :: style where
  "empty_style = \<lparr>transformOrigin = [], transform = []\<rparr>"

definition test_world :: world where
  "test_world = initial_world test_config empty_style"

section \<open>The descriptor as a string, and the reader of the example page\<close>

text \<open>
  The string a template evaluates to, given the conversion of a number to a string, which
  is the runtime's \<^verbatim>\<open>Number::toString\<close> and not code of the repository.
\<close>

fun render :: "(number \<Rightarrow> string) \<Rightarrow> template \<Rightarrow> string" where
  "render toStr [] = []"
| "render toStr (Str s # ps) = s @ render toStr ps"
| "render toStr (Num n # ps) = toStr n @ render toStr ps"

text \<open>
  The example page reads the descriptor back in \<^verbatim>\<open>updateStats\<close>:
  \<^verbatim>\<open>transform.match(/matrix\((.+)\)/)\<close>, then
  \<^verbatim>\<open>match[1].split(',').map(v => parseFloat(v.trim()))\<close>.
  Characters are bytes here, so the line terminators and the white space are the ASCII
  ones. \<^verbatim>\<open>parseFloat\<close> is the runtime's and is a parameter. The string read is taken
  to be the string that was written to the style.
\<close>

definition isLineTerminator :: "char \<Rightarrow> bool" where
  "isLineTerminator c = (c = CHR 0x0A \<or> c = CHR 0x0D)"

definition isWhiteSpace :: "char \<Rightarrow> bool" where
  "isWhiteSpace c =
     (c = CHR 0x09 \<or> c = CHR 0x0A \<or> c = CHR 0x0B \<or> c = CHR 0x0C \<or> c = CHR 0x0D
      \<or> c = CHR 0x20)"

text \<open>
  What \<^verbatim>\<open>(.+)\)\<close> captures at the start of \<open>rest\<close>: the dot stays on the line, the plus
  is greedy and needs one character, so the group ends before the last closing bracket of
  the line.
\<close>

definition capture :: "string \<Rightarrow> string option" where
  "capture rest =
     (let line = takeWhile (\<lambda>c. \<not> isLineTerminator c) rest;
          r = dropWhile (\<lambda>c. c \<noteq> CHR 0x29) (rev line)
      in if r = [] then None
         else if tl r = [] then None
         else Some (rev (tl r)))"

text \<open>The group of the leftmost match of the pattern, if there is a match.\<close>

fun match_matrix :: "string \<Rightarrow> string option" where
  "match_matrix [] = None"
| "match_matrix (c # cs) =
     (if take 7 (c # cs) = ''matrix(''
      then (case capture (drop 7 (c # cs)) of
              Some g \<Rightarrow> Some g
            | None \<Rightarrow> match_matrix cs)
      else match_matrix cs)"

text \<open>\<^verbatim>\<open>split(',')\<close> and \<^verbatim>\<open>trim()\<close>.\<close>

fun split_comma :: "string \<Rightarrow> string list" where
  "split_comma [] = [[]]"
| "split_comma (c # cs) =
     (if c = CHR 0x2C then [] # split_comma cs
      else (case split_comma cs of
              [] \<Rightarrow> [[c]]
            | x # xs \<Rightarrow> (c # x) # xs))"

definition trim :: "string \<Rightarrow> string" where
  "trim s = rev (dropWhile isWhiteSpace (rev (dropWhile isWhiteSpace s)))"

definition updateStats_values :: "(string \<Rightarrow> number) \<Rightarrow> string \<Rightarrow> number list option" where
  "updateStats_values parseFloat str =
     (case match_matrix str of
        None \<Rightarrow> None
      | Some g \<Rightarrow> Some (map (\<lambda>v. parseFloat (trim v)) (split_comma g)))"

text \<open>
  What the runtime does for a number \<open>v\<close>: its string has no comma and no white space, and
  \<^verbatim>\<open>parseFloat\<close> reads it back as \<open>v\<close>.
\<close>

definition prints_plainly :: "(number \<Rightarrow> string) \<Rightarrow> (string \<Rightarrow> number) \<Rightarrow> number \<Rightarrow> bool" where
  "prints_plainly toStr parseFloat v =
     (parseFloat (toStr v) = v
      \<and> list_all (\<lambda>c. c \<noteq> CHR 0x2C \<and> \<not> isWhiteSpace c) (toStr v))"

text \<open>
  The two runtime functions on the numbers of the unit test of \<^verbatim>\<open>getMatrixTransform\<close>
  (2, 10 and 20) and on 0, for use in examples.
\<close>

definition toString_test :: "number \<Rightarrow> string" where
  "toString_test v =
     (if v = Fin 2 then ''2'' else if v = Fin 10 then ''10''
      else if v = Fin 20 then ''20'' else ''0'')"

definition parseFloat_test :: "string \<Rightarrow> number" where
  "parseFloat_test str =
     (if str = ''2'' then Fin 2 else if str = ''10'' then Fin 10
      else if str = ''20'' then Fin 20 else if str = ''0'' then Fin 0 else NaN)"

text \<open>
  Two readings of a world after an operation: whether the state passes the check of
  \<^verbatim>\<open>applyTransform\<close>, and whether, against the world before, the element is untouched
  and the warning is the one line added to the console.
\<close>

definition valid_state :: "world \<Rightarrow> bool" where
  "valid_state w =
     isValidTransformation (scale (getState w)) (translateX (getState w))
       (translateY (getState w))"

definition emission_withheld :: "world \<Rightarrow> world \<Rightarrow> bool" where
  "emission_withheld w w' =
     (element w' = element w
      \<and> console w' = console w @ [''[Renderer] Invalid transformation values''])"

section \<open>Basic facts\<close>

text \<open>
  A clamp of anything but NaN between finite ordered bounds is finite and between the
  bounds; a quotient by a finite divisor other than zero, and a sum with a finite term,
  are NaN only if the other operand is.
\<close>

lemma clamp_range:
  "Number_isFinite mn \<Longrightarrow> Number_isFinite mx \<Longrightarrow> js_le mn mx \<Longrightarrow> v \<noteq> NaN \<Longrightarrow>
   Number_isFinite (Math_max mn (Math_min mx v))
   \<and> js_le mn (Math_max mn (Math_min mx v)) \<and> js_le (Math_max mn (Math_min mx v)) mx"
  by (cases mn; cases mx; cases v; simp add: Math_min_def Math_max_def)

lemma js_div_not_NaN:
  "d \<noteq> NaN \<Longrightarrow> Number_isFinite s \<Longrightarrow> s \<noteq> Fin 0 \<Longrightarrow> js_div d s \<noteq> NaN"
  by (cases d; cases s) simp_all

lemma js_add_not_NaN: "Number_isFinite x \<Longrightarrow> q \<noteq> NaN \<Longrightarrow> js_add x q \<noteq> NaN"
  by (cases x; cases q) simp_all

lemma applyTransform_renderer [simp]: "renderer (applyTransform w) = renderer w"
  by (simp add: applyTransform_def)

lemma set_state_simps [simp]:
  "renderer (set_state st w) = (renderer w)\<lparr>state := st\<rparr>"
  "element (set_state st w) = element w"
  "console (set_state st w) = console w"
  "the_state (set_state st w) = st"
  "the_config (set_state st w) = the_config w"
  by (simp_all add: set_state_def the_state_def the_config_def)

lemma applyTransform_simps [simp]:
  "the_state (applyTransform w) = the_state w"
  "the_config (applyTransform w) = the_config w"
  by (simp_all add: the_state_def the_config_def)

lemma zoom_active:
  "isActiveFlag (renderer w) \<Longrightarrow>
   the_state (zoom p w) = (the_state w)\<lparr>scale :=
     Math_max (minScale (the_config w))
       (Math_min (maxScale (the_config w))
          (js_add (scale (the_state w))
             (js_div (zoom_deltaScale p) (sensitivity (the_config w)))))\<rparr>
   \<and> the_config (zoom p w) = the_config w
   \<and> isActiveFlag (renderer (zoom p w))"
  by (simp add: zoom_def Let_def)

lemma initial_world_simps [simp]:
  "isActiveFlag (renderer (initial_world cfg el))"
  "the_state (initial_world cfg el) = getInitialState"
  "minScale (the_config (initial_world cfg el)) = minScale cfg"
  "maxScale (the_config (initial_world cfg el)) = maxScale cfg"
  "sensitivity (the_config (initial_world cfg el)) =
     (case scaleSensitivity cfg of None \<Rightarrow> Fin 10 | Some s \<Rightarrow> s)"
  "element (initial_world cfg el) = el"
  "console (initial_world cfg el) = []"
  by (simp_all add: initial_world_def new_Renderer_def the_state_def the_config_def
      sensitivity_def)

text \<open>
  One zoom of an active renderer with finite bounds and a finite sensitivity other than
  zero keeps the scale finite and puts it in range.
\<close>

lemma zoom_step:
  assumes act: "isActiveFlag (renderer w)"
      and fmin: "Number_isFinite (minScale (the_config w))"
      and fmax: "Number_isFinite (maxScale (the_config w))"
      and le: "js_le (minScale (the_config w)) (maxScale (the_config w))"
      and sens: "Number_isFinite (sensitivity (the_config w))"
        "sensitivity (the_config w) \<noteq> Fin 0"
      and sc: "Number_isFinite (scale (the_state w))"
      and d: "zoom_deltaScale p \<noteq> NaN"
  shows "Number_isFinite (scale (the_state (zoom p w)))
       \<and> js_le (minScale (the_config w)) (scale (the_state (zoom p w)))
       \<and> js_le (scale (the_state (zoom p w))) (maxScale (the_config w))"
proof -
  have q: "js_div (zoom_deltaScale p) (sensitivity (the_config w)) \<noteq> NaN"
    by (rule js_div_not_NaN [OF d sens])
  have cand: "js_add (scale (the_state w))
      (js_div (zoom_deltaScale p) (sensitivity (the_config w))) \<noteq> NaN"
    by (rule js_add_not_NaN [OF sc q])
  show ?thesis
    using clamp_range [OF fmin fmax le cand] zoom_active [OF act, of p] by simp
qed

lemma zooms_in_range:
  assumes "ps \<noteq> []"
      and "isActiveFlag (renderer w)"
      and "Number_isFinite (minScale (the_config w))"
      and "Number_isFinite (maxScale (the_config w))"
      and "js_le (minScale (the_config w)) (maxScale (the_config w))"
      and "Number_isFinite (sensitivity (the_config w))"
      and "sensitivity (the_config w) \<noteq> Fin 0"
      and "Number_isFinite (scale (the_state w))"
      and "\<forall>p \<in> set ps. zoom_deltaScale p \<noteq> NaN"
  shows "js_le (minScale (the_config w)) (scale (the_state (fold zoom ps w)))
       \<and> js_le (scale (the_state (fold zoom ps w))) (maxScale (the_config w))"
  using assms
proof (induction ps arbitrary: w)
  case Nil
  then show ?case by simp
next
  case (Cons p ps)
  have d: "zoom_deltaScale p \<noteq> NaN" using Cons.prems(9) by simp
  note step = zoom_step [OF Cons.prems(2) Cons.prems(3) Cons.prems(4) Cons.prems(5)
      Cons.prems(6) Cons.prems(7) Cons.prems(8) d]
  note za = zoom_active [OF Cons.prems(2), of p]
  show ?case
  proof (cases "ps = []")
    case True
    then show ?thesis using step by simp
  next
    case False
    have "js_le (minScale (the_config (zoom p w)))
            (scale (the_state (fold zoom ps (zoom p w))))
        \<and> js_le (scale (the_state (fold zoom ps (zoom p w))))
            (maxScale (the_config (zoom p w)))"
      using Cons.prems za step by (intro Cons.IH [OF False]) simp_all
    then show ?thesis using za by simp
  qed
qed

lemma test_world_simps [simp]:
  "isActiveFlag (renderer test_world)"
  "the_state test_world = getInitialState"
  "minScale (the_config test_world) = Fin (1 / 10)"
  "maxScale (the_config test_world) = Fin 10"
  "sensitivity (the_config test_world) = Fin 10"
  "element test_world = empty_style"
  "console test_world = []"
  by (simp_all add: test_world_def test_config_def)

lemma getState_eq [simp]: "getState w = the_state w"
  by (simp add: getState_def)

lemma isActive_eq [simp]: "isActive w = isActiveFlag (renderer w)"
  by (simp add: isActive_def)

lemma the_state_update [simp]:
  "the_state (w\<lparr>element := e\<rparr>) = the_state w"
  "the_state (w\<lparr>console := c\<rparr>) = the_state w"
  "the_config (w\<lparr>element := e\<rparr>) = the_config w"
  "the_config (w\<lparr>console := c\<rparr>) = the_config w"
  by (simp_all add: the_state_def the_config_def)

lemma applyTransform_invalid:
  "\<not> isValidTransformation (scale (the_state w)) (translateX (the_state w))
        (translateY (the_state w)) \<Longrightarrow>
   element (applyTransform w) = element w
   \<and> console (applyTransform w) = console w @ [''[Renderer] Invalid transformation values'']"
  by (simp add: applyTransform_def)

lemma applyTransform_valid:
  "isValidTransformation (scale (the_state w)) (translateX (the_state w))
        (translateY (the_state w)) \<Longrightarrow>
   element (applyTransform w) =
     \<lparr>transformOrigin =
        [Num (originX (the_state w)), Str ''px '', Num (originY (the_state w)), Str ''px''],
      transform =
        getMatrixTransform (scale (the_state w)) (translateX (the_state w))
          (translateY (the_state w))\<rparr>
   \<and> console (applyTransform w) = console w"
  by (simp add: applyTransform_def)

lemma panBy_active:
  "isActiveFlag (renderer w) \<Longrightarrow>
   the_state (panBy p w) = (the_state w)\<lparr>
     translateX := js_add (translateX (the_state w)) (panBy_originX p),
     translateY := js_add (translateY (the_state w)) (panBy_originY p)\<rparr>
   \<and> the_config (panBy p w) = the_config w
   \<and> isActiveFlag (renderer (panBy p w))"
  by (simp add: panBy_def Let_def)

lemma panTo_active:
  "isActiveFlag (renderer w) \<Longrightarrow>
   the_state (panTo p w) =
     (case panTo_scale p of
        None \<Rightarrow> the_state w
      | Some s \<Rightarrow> (the_state w)\<lparr>scale :=
          Math_max (minScale (the_config w)) (Math_min (maxScale (the_config w)) s)\<rparr>)
     \<lparr>translateX := panTo_originX p, translateY := panTo_originY p\<rparr>
   \<and> the_config (panTo p w) = the_config w
   \<and> isActiveFlag (renderer (panTo p w))"
  by (simp add: panTo_def Let_def split: option.splits)

lemma zoom_emission:
  "isActiveFlag (renderer w) \<Longrightarrow> \<not> valid_state (zoom p w) \<Longrightarrow>
   emission_withheld w (zoom p w)"
  using applyTransform_invalid
  by (simp add: zoom_def Let_def valid_state_def emission_withheld_def)

lemma panBy_emission:
  "isActiveFlag (renderer w) \<Longrightarrow> \<not> valid_state (panBy p w) \<Longrightarrow>
   emission_withheld w (panBy p w)"
  using applyTransform_invalid
  by (simp add: panBy_def Let_def valid_state_def emission_withheld_def)

lemma panTo_emission:
  "isActiveFlag (renderer w) \<Longrightarrow> \<not> valid_state (panTo p w) \<Longrightarrow>
   emission_withheld w (panTo p w)"
  using applyTransform_invalid
  by (simp add: panTo_def Let_def valid_state_def emission_withheld_def split: option.splits)

lemma zoom_inactive: "\<not> isActiveFlag (renderer w) \<Longrightarrow> zoom p w = w"
  by (simp add: zoom_def)

lemma perform_inactive: "\<not> isActiveFlag (renderer w) \<Longrightarrow> perform c w = w"
  by (cases c) (simp_all add: zoom_def panBy_def panTo_def reset_def)

lemma fold_perform_inactive:
  "\<not> isActiveFlag (renderer w) \<Longrightarrow> fold perform cs w = w"
  by (induction cs) (simp_all add: perform_inactive)

lemma destroy_simps [simp]:
  "\<not> isActiveFlag (renderer (destroy w))"
  "the_state (destroy w) = the_state w"
  "the_config (destroy w) = the_config w"
  "element (destroy w) = element w"
  "console (destroy w) = console w"
  by (simp_all add: destroy_def the_state_def the_config_def)

text \<open>The state of the test renderer after n zoom steps of +1 and of -1.\<close>

lemma zoom_in_steps:
  "isActiveFlag (renderer ((zoom \<lparr>zoom_x = x, zoom_y = y, zoom_deltaScale = Fin 1\<rparr> ^^ n)
      (initial_world test_config el)))
   \<and> the_config ((zoom \<lparr>zoom_x = x, zoom_y = y, zoom_deltaScale = Fin 1\<rparr> ^^ n)
      (initial_world test_config el)) = the_config (initial_world test_config el)
   \<and> scale (the_state ((zoom \<lparr>zoom_x = x, zoom_y = y, zoom_deltaScale = Fin 1\<rparr> ^^ n)
      (initial_world test_config el))) = Fin (min 10 (1 + real n / 10))"
proof (induction n)
  case 0
  show ?case by (simp add: getInitialState_def)
next
  case (Suc n)
  let ?p = "\<lparr>zoom_x = x, zoom_y = y, zoom_deltaScale = Fin 1\<rparr>"
  let ?w = "(zoom ?p ^^ n) (initial_world test_config el)"
  from Suc.IH have act: "isActiveFlag (renderer ?w)" by simp
  from Suc.IH have cfg: "the_config ?w = the_config (initial_world test_config el)"
    by simp
  from Suc.IH have sc: "scale (the_state ?w) = Fin (min 10 (1 + real n / 10))"
    by simp
  have bounds: "minScale (the_config ?w) = Fin (1 / 10)" "maxScale (the_config ?w) = Fin 10"
    "sensitivity (the_config ?w) = Fin 10"
    unfolding cfg by (simp_all add: test_config_def)
  have "scale (the_state (zoom ?p ?w)) =
      Math_max (Fin (1 / 10)) (Math_min (Fin 10)
        (js_add (Fin (min 10 (1 + real n / 10))) (js_div (Fin 1) (Fin 10))))"
    using zoom_active [OF act, of ?p] sc bounds by simp
  also have "\<dots> = Fin (min 10 (1 + real (Suc n) / 10))"
    by (simp add: Math_min_def Math_max_def min_def add_divide_distrib)
  finally have "scale (the_state (zoom ?p ?w)) = Fin (min 10 (1 + real (Suc n) / 10))" .
  then show ?case
    using zoom_active [OF act, of ?p] cfg by simp
qed

lemma zoom_out_steps:
  "isActiveFlag (renderer ((zoom \<lparr>zoom_x = x, zoom_y = y, zoom_deltaScale = Fin (- 1)\<rparr> ^^ n)
      (initial_world test_config el)))
   \<and> the_config ((zoom \<lparr>zoom_x = x, zoom_y = y, zoom_deltaScale = Fin (- 1)\<rparr> ^^ n)
      (initial_world test_config el)) = the_config (initial_world test_config el)
   \<and> scale (the_state ((zoom \<lparr>zoom_x = x, zoom_y = y, zoom_deltaScale = Fin (- 1)\<rparr> ^^ n)
      (initial_world test_config el))) = Fin (max (1 / 10) (1 - real n / 10))"
proof (induction n)
  case 0
  show ?case by (simp add: getInitialState_def)
next
  case (Suc n)
  let ?p = "\<lparr>zoom_x = x, zoom_y = y, zoom_deltaScale = Fin (- 1)\<rparr>"
  let ?w = "(zoom ?p ^^ n) (initial_world test_config el)"
  from Suc.IH have act: "isActiveFlag (renderer ?w)" by simp
  from Suc.IH have cfg: "the_config ?w = the_config (initial_world test_config el)"
    by simp
  from Suc.IH have sc: "scale (the_state ?w) = Fin (max (1 / 10) (1 - real n / 10))"
    by simp
  have bounds: "minScale (the_config ?w) = Fin (1 / 10)" "maxScale (the_config ?w) = Fin 10"
    "sensitivity (the_config ?w) = Fin 10"
    unfolding cfg by (simp_all add: test_config_def)
  have "scale (the_state (zoom ?p ?w)) =
      Math_max (Fin (1 / 10)) (Math_min (Fin 10)
        (js_add (Fin (max (1 / 10) (1 - real n / 10))) (js_div (Fin (- 1)) (Fin 10))))"
    using zoom_active [OF act, of ?p] sc bounds by simp
  also have "\<dots> = Fin (max (1 / 10) (1 - real (Suc n) / 10))"
    by (simp add: Math_min_def Math_max_def max_def add_divide_distrib)
  finally have "scale (the_state (zoom ?p ?w)) = Fin (max (1 / 10) (1 - real (Suc n) / 10))" .
  then show ?case
    using zoom_active [OF act, of ?p] cfg by simp
qed

text \<open>The pieces of the reader on a descriptor.\<close>

lemma capture_body:
  assumes "list_all (\<lambda>c. \<not> isLineTerminator c) body" and "body \<noteq> []"
  shows "capture (body @ '')'') = Some body"
proof -
  have nl: "\<not> isLineTerminator (CHR 0x29)" by (simp add: isLineTerminator_def)
  have "takeWhile (\<lambda>c. \<not> isLineTerminator c) (body @ '')'') = body @ '')''"
    using assms(1) nl by (simp add: list_all_iff)
  then show ?thesis
    using assms(2) by (simp add: capture_def)
qed

lemma match_matrix_body:
  assumes "list_all (\<lambda>c. \<not> isLineTerminator c) body" and "body \<noteq> []"
  shows "match_matrix (''matrix('' @ body @ '')'') = Some body"
  using capture_body [OF assms] by simp

lemma split_comma_piece:
  "list_all (\<lambda>c. c \<noteq> CHR 0x2C) a \<Longrightarrow>
   split_comma (a @ CHR 0x2C # rest) = a # split_comma rest"
  by (induction a) simp_all

lemma split_comma_last:
  "list_all (\<lambda>c. c \<noteq> CHR 0x2C) a \<Longrightarrow> split_comma a = [a]"
  by (induction a) simp_all

lemma dropWhile_none: "list_all (\<lambda>c. \<not> P c) xs \<Longrightarrow> dropWhile P xs = xs"
  by (cases xs) simp_all

lemma trim_plain: "list_all (\<lambda>c. \<not> isWhiteSpace c) a \<Longrightarrow> trim a = a"
  by (simp add: trim_def dropWhile_none)

lemma trim_space_plain:
  assumes "list_all (\<lambda>c. \<not> isWhiteSpace c) a"
  shows "trim (CHR 0x20 # a) = a"
proof -
  have "dropWhile isWhiteSpace (CHR 0x20 # a) = a"
    using assms by (simp add: isWhiteSpace_def dropWhile_none)
  then show ?thesis
    using assms by (simp add: trim_def dropWhile_none)
qed


lemma plain_parts:
  assumes "list_all (\<lambda>c. c \<noteq> CHR 0x2C \<and> \<not> isWhiteSpace c) a"
  shows "list_all (\<lambda>c. c \<noteq> CHR 0x2C) a"
    and "list_all (\<lambda>c. \<not> isWhiteSpace c) a"
    and "list_all (\<lambda>c. \<not> isLineTerminator c) a"
    and "list_all (\<lambda>c. c \<noteq> CHR 0x2C) (CHR 0x20 # a)"
  using assms by (auto simp add: list_all_iff isWhiteSpace_def isLineTerminator_def)

section \<open>The clamping invariant\<close>

text \<open>
  The reading of claim C1 that the code refutes: \<open>minScale \<le> maxScale\<close> alone keeps the
  scale in range after every zoom with a real \<open>deltaScale\<close>. The renderer of the unit
  tests with the sensitivity 0 instead of 10 and one zoom with \<open>deltaScale = 0\<close>: the
  quotient 0 / 0 is NaN, so is the candidate, the clamp returns NaN, and NaN is not
  between the bounds.
\<close>

theorem zoom_clamping_counterexample:
  "js_le (minScale (test_config\<lparr>scaleSensitivity := Some (Fin 0)\<rparr>))
     (maxScale (test_config\<lparr>scaleSensitivity := Some (Fin 0)\<rparr>))
   \<and> Number_isFinite (zoom_deltaScale
         \<lparr>zoom_x = Fin 250, zoom_y = Fin 250, zoom_deltaScale = Fin 0\<rparr>)
   \<and> scale (getState (fold zoom
         [\<lparr>zoom_x = Fin 250, zoom_y = Fin 250, zoom_deltaScale = Fin 0\<rparr>]
         (initial_world (test_config\<lparr>scaleSensitivity := Some (Fin 0)\<rparr>) empty_style)))
       = NaN
   \<and> \<not> js_le (minScale (test_config\<lparr>scaleSensitivity := Some (Fin 0)\<rparr>))
         (scale (getState (fold zoom
            [\<lparr>zoom_x = Fin 250, zoom_y = Fin 250, zoom_deltaScale = Fin 0\<rparr>]
            (initial_world (test_config\<lparr>scaleSensitivity := Some (Fin 0)\<rparr>)
               empty_style))))"
proof -
  let ?w = "initial_world (test_config\<lparr>scaleSensitivity := Some (Fin 0)\<rparr>) empty_style"
  let ?p = "\<lparr>zoom_x = Fin 250, zoom_y = Fin 250, zoom_deltaScale = Fin 0\<rparr>"
  have act: "isActiveFlag (renderer ?w)" by simp
  have "scale (the_state (zoom ?p ?w)) = NaN"
    using zoom_active [OF act, of ?p]
    by (simp add: test_config_def getInitialState_def Math_min_def Math_max_def)
  then show ?thesis
    by (simp add: test_config_def)
qed

text \<open>
  Claim C1, amended. Take a renderer constructed with finite bounds
  \<open>minScale \<le> maxScale\<close> and a sensitivity that is finite and not zero (the default 10 when
  the configuration has none), and any sequence of zoom calls whose \<open>deltaScale\<close> is not
  NaN: any real value, or an infinity. After each call of the sequence, that is after its
  first \<open>n\<close> calls for every \<open>0 < n\<close>, the scale of the state satisfies
  \<open>minScale \<le> scale \<le> maxScale\<close>. With finite bounds the scale stays finite, so the
  candidate is not NaN even where the quotient is infinite.
\<close>

theorem zoom_clamping_invariant:
  assumes "Number_isFinite (minScale cfg)" and "Number_isFinite (maxScale cfg)"
      and "js_le (minScale cfg) (maxScale cfg)"
      and "Number_isFinite (sensitivity (config (new_Renderer cfg)))"
      and "sensitivity (config (new_Renderer cfg)) \<noteq> Fin 0"
      and "\<forall>p \<in> set ps. zoom_deltaScale p \<noteq> NaN"
      and "0 < n" and "n \<le> length ps"
  shows "js_le (minScale cfg)
           (scale (getState (fold zoom (take n ps) (initial_world cfg el))))
       \<and> js_le (scale (getState (fold zoom (take n ps) (initial_world cfg el))))
           (maxScale cfg)"
proof -
  let ?w = "initial_world cfg el"
  have ne: "take n ps \<noteq> []" using assms(7,8) by auto
  have d: "\<forall>p \<in> set (take n ps). zoom_deltaScale p \<noteq> NaN"
    using assms(6) by (meson in_set_takeD)
  have cfg: "the_config ?w = config (new_Renderer cfg)"
    by (simp add: initial_world_def the_config_def)
  have s1: "Number_isFinite (sensitivity (the_config ?w))"
    and s2: "sensitivity (the_config ?w) \<noteq> Fin 0"
    unfolding cfg using assms(4,5) by simp_all
  have sc: "Number_isFinite (scale (the_state ?w))"
    by (simp add: getInitialState_def)
  have "js_le (minScale (the_config ?w)) (scale (the_state (fold zoom (take n ps) ?w)))
      \<and> js_le (scale (the_state (fold zoom (take n ps) ?w))) (maxScale (the_config ?w))"
    using assms(1,2,3) d by (intro zooms_in_range [OF ne _ _ _ _ s1 s2 sc]) simp_all
  then show ?thesis by (simp add: getState_def)
qed

theorem zoom_clamping_invariant_witness:
  "Number_isFinite (minScale test_config) \<and> Number_isFinite (maxScale test_config)
   \<and> js_le (minScale test_config) (maxScale test_config)
   \<and> sensitivity (config (new_Renderer test_config)) = Fin 10
   \<and> js_le (minScale test_config)
        (scale (getState (fold zoom
           (take 2 [\<lparr>zoom_x = Fin 250, zoom_y = Fin 250, zoom_deltaScale = Fin 1000\<rparr>,
                    \<lparr>zoom_x = Fin 250, zoom_y = Fin 250, zoom_deltaScale = NInf\<rparr>])
           (initial_world test_config empty_style))))
   \<and> js_le
        (scale (getState (fold zoom
           (take 2 [\<lparr>zoom_x = Fin 250, zoom_y = Fin 250, zoom_deltaScale = Fin 1000\<rparr>,
                    \<lparr>zoom_x = Fin 250, zoom_y = Fin 250, zoom_deltaScale = NInf\<rparr>])
           (initial_world test_config empty_style))))
        (maxScale test_config)"
proof -
  have fmin: "Number_isFinite (minScale test_config)"
    and fmax: "Number_isFinite (maxScale test_config)"
    and le: "js_le (minScale test_config) (maxScale test_config)"
    by (simp_all add: test_config_def)
  have s: "sensitivity (config (new_Renderer test_config)) = Fin 10"
    by (simp add: new_Renderer_def test_config_def sensitivity_def)
  have s1: "Number_isFinite (sensitivity (config (new_Renderer test_config)))"
    and s2: "sensitivity (config (new_Renderer test_config)) \<noteq> Fin 0"
    unfolding s by simp_all
  have d: "\<forall>p \<in> set [\<lparr>zoom_x = Fin 250, zoom_y = Fin 250, zoom_deltaScale = Fin 1000\<rparr>,
                    \<lparr>zoom_x = Fin 250, zoom_y = Fin 250, zoom_deltaScale = NInf\<rparr>].
              zoom_deltaScale p \<noteq> NaN"
    by simp
  have n: "0 < (2::nat)"
    "2 \<le> length [\<lparr>zoom_x = Fin 250, zoom_y = Fin 250, zoom_deltaScale = Fin 1000\<rparr>,
                    \<lparr>zoom_x = Fin 250, zoom_y = Fin 250, zoom_deltaScale = NInf\<rparr>]"
    by simp_all
  show ?thesis
    using fmin fmax le s
      zoom_clamping_invariant [OF fmin fmax le s1 s2 d n, of empty_style]
    by simp
qed

section \<open>Results that are not finite\<close>

text \<open>
  The reading of claim C2 that the code refutes: an operation whose candidate is not finite
  leaves \<open>getState\<close> as it was. On the renderer of the unit tests, a zoom whose
  \<open>deltaScale\<close> is NaN has the candidate NaN, and the scale of the state is NaN afterwards.
\<close>

theorem rejected_candidate_counterexample:
  "isActive test_world
   \<and> \<not> Number_isFinite (js_add (scale (getState test_world))
         (js_div NaN (sensitivity (the_config test_world))))
   \<and> scale (getState (zoom \<lparr>zoom_x = Fin 250, zoom_y = Fin 250, zoom_deltaScale = NaN\<rparr>
         test_world)) = NaN
   \<and> getState (zoom \<lparr>zoom_x = Fin 250, zoom_y = Fin 250, zoom_deltaScale = NaN\<rparr>
         test_world) \<noteq> getState test_world"
proof -
  have "scale (getState (zoom \<lparr>zoom_x = Fin 250, zoom_y = Fin 250, zoom_deltaScale = NaN\<rparr>
         test_world)) = NaN"
    using zoom_active [where w = test_world
        and p = "\<lparr>zoom_x = Fin 250, zoom_y = Fin 250, zoom_deltaScale = NaN\<rparr>"]
    by (simp add: Math_min_def Math_max_def getInitialState_def)
  moreover have "scale (getState test_world) = Fin 1"
    by (simp add: getInitialState_def)
  ultimately show ?thesis by auto
qed

text \<open>
  Claim C2, amended. On an active renderer, zoom, panBy and panTo first write the state:
  zoom the clamped candidate, panBy the two sums, panTo the two targets and the clamped
  scale when one is given. When the scale, \<open>translateX\<close> or \<open>translateY\<close> of the state
  so written is not finite, the element is left untouched and one warning is written to
  the console; the state is not restored.
\<close>

theorem invalid_result_withholds_emission:
  assumes "isActive w"
  shows "getState (zoom pz w) = (getState w)\<lparr>scale :=
           Math_max (minScale (the_config w))
             (Math_min (maxScale (the_config w))
                (js_add (scale (getState w))
                   (js_div (zoom_deltaScale pz) (sensitivity (the_config w)))))\<rparr>
       \<and> getState (panBy pb w) = (getState w)\<lparr>
           translateX := js_add (translateX (getState w)) (panBy_originX pb),
           translateY := js_add (translateY (getState w)) (panBy_originY pb)\<rparr>
       \<and> getState (panTo pt w) =
           (case panTo_scale pt of
              None \<Rightarrow> getState w
            | Some s \<Rightarrow> (getState w)\<lparr>scale :=
                Math_max (minScale (the_config w)) (Math_min (maxScale (the_config w)) s)\<rparr>)
           \<lparr>translateX := panTo_originX pt, translateY := panTo_originY pt\<rparr>
       \<and> (\<not> valid_state (zoom pz w) \<longrightarrow> emission_withheld w (zoom pz w))
       \<and> (\<not> valid_state (panBy pb w) \<longrightarrow> emission_withheld w (panBy pb w))
       \<and> (\<not> valid_state (panTo pt w) \<longrightarrow> emission_withheld w (panTo pt w))"
proof -
  have act: "isActiveFlag (renderer w)" using assms by simp
  have z: "getState (zoom pz w) = (getState w)\<lparr>scale :=
           Math_max (minScale (the_config w))
             (Math_min (maxScale (the_config w))
                (js_add (scale (getState w))
                   (js_div (zoom_deltaScale pz) (sensitivity (the_config w)))))\<rparr>"
    using zoom_active [OF act, of pz] by simp
  have b: "getState (panBy pb w) = (getState w)\<lparr>
           translateX := js_add (translateX (getState w)) (panBy_originX pb),
           translateY := js_add (translateY (getState w)) (panBy_originY pb)\<rparr>"
    using panBy_active [OF act, of pb] by simp
  have t: "getState (panTo pt w) =
           (case panTo_scale pt of
              None \<Rightarrow> getState w
            | Some s \<Rightarrow> (getState w)\<lparr>scale :=
                Math_max (minScale (the_config w)) (Math_min (maxScale (the_config w)) s)\<rparr>)
           \<lparr>translateX := panTo_originX pt, translateY := panTo_originY pt\<rparr>"
    using panTo_active [OF act, of pt] by (simp split: option.splits)
  show ?thesis
    using z b t zoom_emission [OF act, of pz] panBy_emission [OF act, of pb]
      panTo_emission [OF act, of pt]
    by blast
qed

theorem invalid_result_withholds_emission_witness:
  "isActive test_world
   \<and> \<not> valid_state (zoom \<lparr>zoom_x = Fin 250, zoom_y = Fin 250, zoom_deltaScale = NaN\<rparr>
         test_world)
   \<and> emission_withheld test_world
        (zoom \<lparr>zoom_x = Fin 250, zoom_y = Fin 250, zoom_deltaScale = NaN\<rparr> test_world)
   \<and> \<not> valid_state (panBy \<lparr>panBy_originX = PInf, panBy_originY = Fin 0\<rparr> test_world)
   \<and> emission_withheld test_world
        (panBy \<lparr>panBy_originX = PInf, panBy_originY = Fin 0\<rparr> test_world)
   \<and> \<not> valid_state (panTo \<lparr>panTo_originX = Fin 0, panTo_originY = NaN,
         panTo_scale = None\<rparr> test_world)
   \<and> emission_withheld test_world
        (panTo \<lparr>panTo_originX = Fin 0, panTo_originY = NaN, panTo_scale = None\<rparr> test_world)"
proof -
  have act: "isActive test_world" by simp
  have z: "\<not> valid_state (zoom \<lparr>zoom_x = Fin 250, zoom_y = Fin 250, zoom_deltaScale = NaN\<rparr>
         test_world)"
    using zoom_active [where w = test_world
        and p = "\<lparr>zoom_x = Fin 250, zoom_y = Fin 250, zoom_deltaScale = NaN\<rparr>"]
    by (simp add: valid_state_def isValidTransformation_def Math_min_def Math_max_def
        getInitialState_def)
  have b: "\<not> valid_state (panBy \<lparr>panBy_originX = PInf, panBy_originY = Fin 0\<rparr> test_world)"
    using panBy_active [where w = test_world
        and p = "\<lparr>panBy_originX = PInf, panBy_originY = Fin 0\<rparr>"]
    by (simp add: valid_state_def isValidTransformation_def getInitialState_def)
  have t: "\<not> valid_state (panTo \<lparr>panTo_originX = Fin 0, panTo_originY = NaN,
         panTo_scale = None\<rparr> test_world)"
    using panTo_active [where w = test_world
        and p = "\<lparr>panTo_originX = Fin 0, panTo_originY = NaN, panTo_scale = None\<rparr>"]
    by (simp add: valid_state_def isValidTransformation_def getInitialState_def)
  show ?thesis
    using act z b t
      invalid_result_withholds_emission [OF act,
        of "\<lparr>zoom_x = Fin 250, zoom_y = Fin 250, zoom_deltaScale = NaN\<rparr>"
           "\<lparr>panBy_originX = PInf, panBy_originY = Fin 0\<rparr>"
           "\<lparr>panTo_originX = Fin 0, panTo_originY = NaN, panTo_scale = None\<rparr>"]
    by blast
qed

section \<open>The target of a zoom\<close>

text \<open>
  Claim C3 says that zoom sets \<open>originX\<close> and \<open>originY\<close> to the target. The code reads
  only \<^verbatim>\<open>element\<close> and \<^verbatim>\<open>deltaScale\<close> of its parameters: after the zoom at (250, 250) of
  the unit tests the origin of the state is still (0, 0), and so is the origin written to
  the element.
\<close>

theorem zoom_ignores_target_at_failing_input:
  "originX (getState (zoom \<lparr>zoom_x = Fin 250, zoom_y = Fin 250, zoom_deltaScale = Fin 1\<rparr>
      test_world)) = Fin 0
   \<and> originY (getState (zoom \<lparr>zoom_x = Fin 250, zoom_y = Fin 250, zoom_deltaScale = Fin 1\<rparr>
      test_world)) = Fin 0
   \<and> transformOrigin (element
       (zoom \<lparr>zoom_x = Fin 250, zoom_y = Fin 250, zoom_deltaScale = Fin 1\<rparr> test_world))
     = [Num (Fin 0), Str ''px '', Num (Fin 0), Str ''px'']"
  by (simp add: zoom_def Let_def applyTransform_def isValidTransformation_def
      getInitialState_def Math_min_def Math_max_def)

section \<open>The scale function of the math module\<close>

text \<open>
  The reading of claim C4 that the code refutes: \<^verbatim>\<open>calculateScale\<close> returns the clamped
  value of \<open>currentScale + deltaScale / sensitivity\<close>. At scale 2, delta 1 and sensitivity
  10 it returns 2.2, and the plain divisor would give 2.1.
\<close>

theorem calculateScale_counterexample:
  "snd (calculateScale (Fin 2) (Fin 1) (Fin (1 / 10)) (Fin 10) (Fin 10)) = Fin (11 / 5)
   \<and> clamp (js_add (Fin 2) (js_div (Fin 1) (Fin 10))) (Fin (1 / 10)) (Fin 10) = Fin (21 / 10)
   \<and> snd (calculateScale (Fin 2) (Fin 1) (Fin (1 / 10)) (Fin 10) (Fin 10))
       \<noteq> clamp (js_add (Fin 2) (js_div (Fin 1) (Fin 10))) (Fin (1 / 10)) (Fin 10)"
  by (simp add: calculateScale_def clamp_def Math_min_def Math_max_def)

text \<open>
  Claim C4, amended. For finite arguments with a scale and a sensitivity other than zero,
  \<^verbatim>\<open>calculateScale\<close> returns the old scale and the candidate
  \<open>currentScale + deltaScale / (sensitivity / currentScale)\<close> clamped to the two bounds:
  the divisor is the sensitivity divided by the current scale.
\<close>

theorem calculateScale_divisor_depends_on_scale:
  assumes "s \<noteq> 0" and "sens \<noteq> 0"
  shows "calculateScale (Fin s) (Fin d) (Fin mn) (Fin mx) (Fin sens)
           = (Fin s, Fin (max mn (min (s + d / (sens / s)) mx)))"
  using assms
  by (simp add: calculateScale_def clamp_def Math_min_def Math_max_def min_def max_def)

theorem calculateScale_divisor_depends_on_scale_witness:
  "(2::real) \<noteq> 0 \<and> (10::real) \<noteq> 0
   \<and> calculateScale (Fin 2) (Fin 1) (Fin (1 / 10)) (Fin 10) (Fin 10) = (Fin 2, Fin (11 / 5))"
proof -
  have a: "(2::real) \<noteq> 0" and b: "(10::real) \<noteq> 0" by simp_all
  show ?thesis
    using calculateScale_divisor_depends_on_scale [OF a b, of 1 "1 / 10" 10] by simp
qed

section \<open>After destroy\<close>

text \<open>
  Claim C5. After \<open>destroy\<close>, any sequence of zoom, panBy, panTo and reset calls returns
  the world it was given: \<open>getState\<close>, the element and the console are as before the
  sequence. Every call returns (the model has no error branch, as the code has no
  \<^verbatim>\<open>throw\<close>), and a second \<open>destroy\<close> changes nothing.
\<close>

theorem destroyed_engine_is_frozen:
  "fold perform cs (destroy w) = destroy w
   \<and> getState (fold perform cs (destroy w)) = getState w
   \<and> element (fold perform cs (destroy w)) = element w
   \<and> console (fold perform cs (destroy w)) = console w
   \<and> destroy (destroy w) = destroy w"
proof -
  have "fold perform cs (destroy w) = destroy w"
    by (rule fold_perform_inactive) simp
  moreover have "destroy (destroy w) = destroy w"
    by (simp add: destroy_def)
  ultimately show ?thesis by simp
qed

theorem destroyed_engine_is_frozen_witness:
  "getState (fold perform
      [Zoom \<lparr>zoom_x = Fin 10, zoom_y = Fin 10, zoom_deltaScale = Fin 1\<rparr>,
       PanBy \<lparr>panBy_originX = Fin 50, panBy_originY = Fin 50\<rparr>,
       PanTo \<lparr>panTo_originX = Fin 100, panTo_originY = Fin 150, panTo_scale = Some (Fin 2)\<rparr>,
       Reset] (destroy test_world)) = getInitialState
   \<and> scale (getState (zoom \<lparr>zoom_x = Fin 10, zoom_y = Fin 10, zoom_deltaScale = Fin 1\<rparr>
        (destroy test_world))) = Fin 1"
  using destroyed_engine_is_frozen [of
      "[Zoom \<lparr>zoom_x = Fin 10, zoom_y = Fin 10, zoom_deltaScale = Fin 1\<rparr>,
       PanBy \<lparr>panBy_originX = Fin 50, panBy_originY = Fin 50\<rparr>,
       PanTo \<lparr>panTo_originX = Fin 100, panTo_originY = Fin 150, panTo_scale = Some (Fin 2)\<rparr>,
       Reset]" test_world]
    destroyed_engine_is_frozen [of
      "[Zoom \<lparr>zoom_x = Fin 10, zoom_y = Fin 10, zoom_deltaScale = Fin 1\<rparr>]" test_world]
  by (simp add: getInitialState_def)

section \<open>Panning\<close>

text \<open>
  Claim C10. On an active renderer, panBy leaves the scale, \<open>originX\<close> and \<open>originY\<close> of
  the state and the configuration as they were, and the renderer stays active: only
  \<open>translateX\<close> and \<open>translateY\<close> can change.
\<close>

theorem panBy_frame:
  assumes "isActive w"
  shows "scale (getState (panBy p w)) = scale (getState w)
       \<and> originX (getState (panBy p w)) = originX (getState w)
       \<and> originY (getState (panBy p w)) = originY (getState w)
       \<and> config (renderer (panBy p w)) = config (renderer w)
       \<and> isActive (panBy p w)"
proof -
  have act: "isActiveFlag (renderer w)" using assms by simp
  show ?thesis
    using panBy_active [OF act, of p] by (simp add: the_config_def)
qed

theorem panBy_frame_witness:
  "isActive test_world
   \<and> scale (getState (panBy \<lparr>panBy_originX = Fin 50, panBy_originY = Fin 50\<rparr> test_world))
       = Fin 1
   \<and> originX (getState (panBy \<lparr>panBy_originX = Fin 50, panBy_originY = Fin 50\<rparr> test_world))
       = Fin 0
   \<and> originY (getState (panBy \<lparr>panBy_originX = Fin 50, panBy_originY = Fin 50\<rparr> test_world))
       = Fin 0
   \<and> config (renderer (panBy \<lparr>panBy_originX = Fin 50, panBy_originY = Fin 50\<rparr> test_world))
       = test_config"
proof -
  have a: "isActive test_world" by simp
  have cfg: "config (renderer test_world) = test_config"
    by (simp add: test_world_def initial_world_def new_Renderer_def test_config_def)
  show ?thesis
    using a cfg panBy_frame [OF a, of "\<lparr>panBy_originX = Fin 50, panBy_originY = Fin 50\<rparr>"]
    by (simp add: getInitialState_def)
qed

section \<open>A thousand zooms\<close>

text \<open>
  Claim C8. With \<open>minScale = 0.1\<close>, \<open>maxScale = 10\<close> and sensitivity 10, and from the
  scale 1 of a new renderer, 1000 calls of zoom with \<open>deltaScale = 1\<close> end at the scale
  10, and 1000 calls with \<open>deltaScale = -1\<close> end at the scale 0.1, whatever the target.
\<close>

theorem thousand_zooms_reach_the_bounds:
  "scale (getState ((zoom \<lparr>zoom_x = x, zoom_y = y, zoom_deltaScale = Fin 1\<rparr> ^^ 1000)
      (initial_world test_config el))) = Fin 10
   \<and> scale (getState ((zoom \<lparr>zoom_x = x, zoom_y = y, zoom_deltaScale = Fin (- 1)\<rparr> ^^ 1000)
      (initial_world test_config el))) = Fin (1 / 10)"
  using zoom_in_steps [where n = 1000 and x = x and y = y and el = el]
    zoom_out_steps [where n = 1000 and x = x and y = y and el = el]
  by simp

section \<open>applyTransform after destroy\<close>

text \<open>
  Claim C9. \<^verbatim>\<open>applyTransform\<close> does not read the active flag. When the scale and the two
  translations of the state are finite, calling it after \<open>destroy\<close> writes the origin and
  the descriptor of the state to the element, the same values as the call on the active
  renderer writes; nothing is logged, and the state and the flag stay as \<open>destroy\<close> left
  them.
\<close>

theorem applyTransform_after_destroy:
  assumes "isActive w" and "valid_state w"
  shows "element (applyTransform (destroy w)) =
           \<lparr>transformOrigin =
              [Num (originX (getState w)), Str ''px '', Num (originY (getState w)),
               Str ''px''],
            transform =
              getMatrixTransform (scale (getState w)) (translateX (getState w))
                (translateY (getState w))\<rparr>
       \<and> element (applyTransform (destroy w)) = element (applyTransform w)
       \<and> console (applyTransform (destroy w)) = console w
       \<and> getState (applyTransform (destroy w)) = getState w
       \<and> \<not> isActive (applyTransform (destroy w))"
proof -
  have v: "isValidTransformation (scale (the_state w)) (translateX (the_state w))
        (translateY (the_state w))"
    using assms(2) by (simp add: valid_state_def)
  have vd: "isValidTransformation (scale (the_state (destroy w)))
        (translateX (the_state (destroy w))) (translateY (the_state (destroy w)))"
    using v by simp
  show ?thesis
    using applyTransform_valid [OF v] applyTransform_valid [OF vd] by simp
qed

theorem applyTransform_after_destroy_witness:
  "isActive test_world \<and> valid_state test_world
   \<and> element (applyTransform (destroy test_world)) =
       \<lparr>transformOrigin = [Num (Fin 0), Str ''px '', Num (Fin 0), Str ''px''],
        transform = getMatrixTransform (Fin 1) (Fin 0) (Fin 0)\<rparr>
   \<and> \<not> isActive (applyTransform (destroy test_world))"
proof -
  have a: "isActive test_world" by simp
  have v: "valid_state test_world"
    by (simp add: valid_state_def isValidTransformation_def getInitialState_def)
  show ?thesis
    using a v applyTransform_after_destroy [OF a v] by (simp add: getInitialState_def)
qed

section \<open>The descriptor read back\<close>

text \<open>
  Claim C7. The descriptor of \<open>s\<close>, \<open>tx\<close>, \<open>ty\<close> is the string
  \<^verbatim>\<open>matrix(s, 0, 0, s, tx, ty)\<close>, with each number as the runtime prints it, and reading
  it back the way the example page does gives the six values of the matrix, with \<open>s\<close>,
  \<open>s\<close>, \<open>tx\<close>, \<open>ty\<close> in the places of the two scales and the two translations. This
  holds for every three numbers that the runtime prints without a comma or white space
  and that \<^verbatim>\<open>parseFloat\<close> reads back, as ECMAScript does for every finite number.
\<close>

theorem descriptor_round_trip:
  assumes "prints_plainly toStr parseFloat s"
      and "prints_plainly toStr parseFloat tx"
      and "prints_plainly toStr parseFloat ty"
  shows "render toStr (getMatrixTransform s tx ty)
           = ''matrix('' @ toStr s @ '', 0, 0, '' @ toStr s @ '', '' @ toStr tx @ '', ''
               @ toStr ty @ '')''
       \<and> updateStats_values parseFloat (render toStr (getMatrixTransform s tx ty))
           = Some [s, parseFloat ''0'', parseFloat ''0'', s, tx, ty]"
proof -
  let ?a = "toStr s" and ?b = "toStr tx" and ?c = "toStr ty"
  let ?body = "?a @ '', 0, 0, '' @ ?a @ '', '' @ ?b @ '', '' @ ?c"
  have pa: "list_all (\<lambda>c. c \<noteq> CHR 0x2C \<and> \<not> isWhiteSpace c) ?a"
    and pb: "list_all (\<lambda>c. c \<noteq> CHR 0x2C \<and> \<not> isWhiteSpace c) ?b"
    and pc: "list_all (\<lambda>c. c \<noteq> CHR 0x2C \<and> \<not> isWhiteSpace c) ?c"
    using assms by (simp_all add: prints_plainly_def)
  have rd: "parseFloat ?a = s" "parseFloat ?b = tx" "parseFloat ?c = ty"
    using assms by (simp_all add: prints_plainly_def)
  have str: "render toStr (getMatrixTransform s tx ty) = ''matrix('' @ ?body @ '')''"
    by (simp add: getMatrixTransform_def)
  have line: "list_all (\<lambda>c. \<not> isLineTerminator c) ?body"
    using plain_parts(3) [OF pa] plain_parts(3) [OF pb] plain_parts(3) [OF pc]
    by (simp add: isLineTerminator_def)
  have ne: "?body \<noteq> []" by simp
  have group: "match_matrix (render toStr (getMatrixTransform s tx ty)) = Some ?body"
    unfolding str by (rule match_matrix_body [OF line ne])
  have "split_comma ?body
      = ?a # split_comma ('' 0, 0, '' @ ?a @ '', '' @ ?b @ '', '' @ ?c)"
    using split_comma_piece [OF plain_parts(1) [OF pa]] by simp
  also have "split_comma ('' 0, 0, '' @ ?a @ '', '' @ ?b @ '', '' @ ?c)
      = '' 0'' # split_comma ('' 0, '' @ ?a @ '', '' @ ?b @ '', '' @ ?c)"
    using split_comma_piece [of "'' 0''"] by simp
  also have "split_comma ('' 0, '' @ ?a @ '', '' @ ?b @ '', '' @ ?c)
      = '' 0'' # split_comma (CHR 0x20 # ?a @ '', '' @ ?b @ '', '' @ ?c)"
    using split_comma_piece [of "'' 0''"] by simp
  also have "split_comma (CHR 0x20 # ?a @ '', '' @ ?b @ '', '' @ ?c)
      = (CHR 0x20 # ?a) # split_comma (CHR 0x20 # ?b @ '', '' @ ?c)"
    using split_comma_piece [OF plain_parts(4) [OF pa]] by simp
  also have "split_comma (CHR 0x20 # ?b @ '', '' @ ?c)
      = (CHR 0x20 # ?b) # split_comma (CHR 0x20 # ?c)"
    using split_comma_piece [OF plain_parts(4) [OF pb]] by simp
  also have "split_comma (CHR 0x20 # ?c) = [CHR 0x20 # ?c]"
    by (rule split_comma_last [OF plain_parts(4) [OF pc]])
  finally have pieces: "split_comma ?body
      = [?a, '' 0'', '' 0'', CHR 0x20 # ?a, CHR 0x20 # ?b, CHR 0x20 # ?c]" .
  have zero: "trim '' 0'' = ''0''"
    by (simp add: trim_def isWhiteSpace_def)
  have "updateStats_values parseFloat (render toStr (getMatrixTransform s tx ty))
      = Some [s, parseFloat ''0'', parseFloat ''0'', s, tx, ty]"
    using group pieces zero rd
      trim_plain [OF plain_parts(2) [OF pa]]
      trim_space_plain [OF plain_parts(2) [OF pa]]
      trim_space_plain [OF plain_parts(2) [OF pb]]
      trim_space_plain [OF plain_parts(2) [OF pc]]
    by (simp add: updateStats_values_def)
  with str show ?thesis by simp
qed

theorem descriptor_round_trip_witness:
  "prints_plainly toString_test parseFloat_test (Fin 2)
   \<and> prints_plainly toString_test parseFloat_test (Fin 10)
   \<and> prints_plainly toString_test parseFloat_test (Fin 20)
   \<and> render toString_test (getMatrixTransform (Fin 2) (Fin 10) (Fin 20))
       = ''matrix(2, 0, 0, 2, 10, 20)''
   \<and> updateStats_values parseFloat_test
        (render toString_test (getMatrixTransform (Fin 2) (Fin 10) (Fin 20)))
       = Some [Fin 2, Fin 0, Fin 0, Fin 2, Fin 10, Fin 20]"
proof -
  have a: "prints_plainly toString_test parseFloat_test (Fin 2)"
    and b: "prints_plainly toString_test parseFloat_test (Fin 10)"
    and c: "prints_plainly toString_test parseFloat_test (Fin 20)"
    by (simp_all add: prints_plainly_def toString_test_def parseFloat_test_def
        isWhiteSpace_def)
  have str: "toString_test (Fin 2) = ''2''" "toString_test (Fin 10) = ''10''"
    "toString_test (Fin 20) = ''20''" "parseFloat_test ''0'' = Fin 0"
    by (simp_all add: toString_test_def parseFloat_test_def)
  note rt = descriptor_round_trip [OF a b c]
  show ?thesis
    using a b c rt [THEN conjunct1] rt [THEN conjunct2] str by simp
qed

end
